theory Spec2Isabelle
  imports Main "HOL-Library.Sublist"
begin

section \<open>Values shared by both variants of the script\<close>

text \<open>
  The repository holds two variants of one script: \<^verbatim>\<open>src/index.ts\<close> (the
  schema-validated variant) and an earlier free-text variant. Both resolve a tweet to an
  image URL with the same \<^verbatim>\<open>fetchTweetData\<close> and then ask the inference API about
  it. The two remote services are parameters of the model: a call either throws a value
  or returns a response. JavaScript strings are modelled as \<^typ>\<open>string\<close>, an optional
  string (\<^verbatim>\<open>string | undefined\<close>) as \<^typ>\<open>string option\<close>; \<^verbatim>\<open>null\<close> and
  \<^verbatim>\<open>undefined\<close> are both \<^const>\<open>None\<close>.
\<close>

datatype thrown = Error string | NonError

text \<open>\<^verbatim>\<open>error instanceof Error ? error.message : dflt\<close>\<close>

fun message_or :: "string \<Rightarrow> thrown \<Rightarrow> string" where
  "message_or dflt (Error m) = m"
| "message_or dflt NonError = dflt"

text \<open>Truthiness of an optional string: defined and not the empty string.\<close>

definition truthy :: "string option \<Rightarrow> bool" where
  "truthy s = (case s of None \<Rightarrow> False | Some v \<Rightarrow> v \<noteq> [])"

text \<open>\<^verbatim>\<open>a || b\<close> on optional strings.\<close>

definition or_else :: "string option \<Rightarrow> string option \<Rightarrow> string option" where
  "or_else a b = (if truthy a then a else b)"

text \<open>Interpolation \<^verbatim>\<open>${v}\<close> of an optional string in a template literal.\<close>

definition interp :: "string option \<Rightarrow> string" where
  "interp v = (case v of None \<Rightarrow> ''undefined'' | Some s \<Rightarrow> s)"

record api_error =
  detail :: "string option"
  title :: "string option"

record media_object =
  type :: string
  url :: "string option"
  preview_image_url :: "string option"

record tweet_object =
  tweet_text :: "string option"

record includes_object =
  media :: "media_object list option"

record tweet_result =
  errors :: "api_error list option"
  data :: "tweet_object option"
  includes' :: "includes_object option"

record lookup_options =
  expansions :: "string list"
  media_fields :: "string list"

text \<open>The object \<^verbatim>\<open>{ imageUrl, text }\<close> that the resolver returns.\<close>

record tweet_data =
  imageUrl :: "string option"
  text' :: "string option"

record verification =
  result :: bool
  reasoning :: string

text \<open>
  Console output is kept as the list of calls made, each with its arguments; objects
  passed to the console are kept as values, not rendered.
\<close>

datatype console_arg =
  Str string
| Undefined
| Thrown thrown
| Errors "api_error list"
| Parsed verification

datatype console_call =
  console_log "console_arg list"
| console_warn "console_arg list"
| console_error "console_arg list"

text \<open>What a call has done when it settles: requests sent, console calls, outcome.\<close>

record ('q, 'a) effect =
  sent :: "'q list"
  console :: "console_call list"
  outcome :: "thrown + 'a"

section \<open>The tweet resolver\<close>

text \<open>
  Lines 56 to 77 of \<^verbatim>\<open>fetchTweetData\<close>: \<^verbatim>\<open>media.find\<close> is \<^const>\<open>List.find\<close>,
  optional chaining \<^verbatim>\<open>m?.url\<close> is \<^const>\<open>Option.bind\<close>.
\<close>

definition select_imageUrl :: "media_object list option \<Rightarrow> string option" where
  "select_imageUrl media_opt =
     (case media_opt of
        None \<Rightarrow> None
      | Some ms \<Rightarrow>
          if length ms > 0 then
            (let photoMedia = List.find (\<lambda>m. type m = ''photo'' \<and> truthy (url m)) ms in
             if truthy (Option.bind photoMedia url) then Option.bind photoMedia url
             else
               (let photoPreviewMedia =
                      List.find (\<lambda>m. type m = ''photo'' \<and> truthy (preview_image_url m)) ms in
                if truthy (Option.bind photoPreviewMedia preview_image_url)
                then Option.bind photoPreviewMedia preview_image_url
                else
                  (let videoMediaWithPreview =
                         List.find (\<lambda>m. type m = ''video'' \<and> truthy (preview_image_url m)) ms in
                   if truthy (Option.bind videoMediaWithPreview preview_image_url)
                   then Option.bind videoMediaWithPreview preview_image_url
                   else None)))
          else None)"

definition tweet_lookup_options :: lookup_options where
  "tweet_lookup_options =
     \<lparr>expansions = [''attachments.media_keys''],
      media_fields = [''url'', ''type'', ''preview_image_url'']\<rparr>"

text \<open>The body of the \<^verbatim>\<open>try\<close> block, given what \<^verbatim>\<open>singleTweet\<close> did.\<close>

definition fetchTweetData_try ::
  "string \<Rightarrow> thrown + tweet_result \<Rightarrow> console_call list \<times> (thrown + tweet_data)" where
  "fetchTweetData_try tweetId reply =
     (case reply of
        Inl e \<Rightarrow> ([], Inl e)
      | Inr tweet \<Rightarrow>
          (case errors tweet of
             Some (e0 # es) \<Rightarrow>
               (let errorDetail = or_else (detail e0) (title e0) in
                ([console_error
                    [Str ''Error fetching tweet:'',
                     (case errorDetail of None \<Rightarrow> Undefined | Some s \<Rightarrow> Str s),
                     Errors (e0 # es)]],
                 Inl (Error (''Failed to fetch tweet: '' @ interp errorDetail))))
           | _ \<Rightarrow>
               (case data tweet of
                  None \<Rightarrow> ([], Inl (Error ''Tweet data not found in API response.''))
                | Some d \<Rightarrow>
                    (let image_url = select_imageUrl (Option.bind (includes' tweet) media) in
                     ((if \<not> truthy image_url
                       then [console_warn
                               [Str (''Tweet '' @ tweetId @
                                  '' does not appear to contain a usable image URL (photo or video thumbnail).'')]]
                       else []),
                      Inr \<lparr>imageUrl = image_url, text' = tweet_text d\<rparr>)))))"

definition fetchTweetData ::
  "string \<Rightarrow> (string \<Rightarrow> lookup_options \<Rightarrow> thrown + tweet_result)
     \<Rightarrow> (string \<times> lookup_options, tweet_data) effect" where
  "fetchTweetData tweetId singleTweet =
     (let started = [console_log [Str (''Fetching tweet from Twitter API: '' @ tweetId)]];
          body = fetchTweetData_try tweetId (singleTweet tweetId tweet_lookup_options)
      in case snd body of
           Inr v \<Rightarrow>
             \<lparr>sent = [(tweetId, tweet_lookup_options)],
              console = started @ fst body,
              outcome = Inr v\<rparr>
         | Inl error \<Rightarrow>
             (let message = message_or ''Unknown error'' error in
              \<lparr>sent = [(tweetId, tweet_lookup_options)],
               console = started @ fst body @
                 [console_error
                    [Str (''Error fetching or processing tweet '' @ tweetId @ '' from API:''),
                     Str message, Thrown error]],
               outcome = Inl (Error (''Failed to process tweet '' @ tweetId @ '': '' @ message))\<rparr>))"

text \<open>
  The selection order as the specification words it: the first photo with a non-empty
  direct URL, else the first photo with a non-empty preview URL, else the first video
  with a non-empty preview URL, else nothing.
\<close>

definition spec_select :: "media_object list \<Rightarrow> string option" where
  "spec_select ms =
     (case List.find (\<lambda>m. type m = ''photo'' \<and> url m \<noteq> None \<and> url m \<noteq> Some []) ms of
        Some m \<Rightarrow> url m
      | None \<Rightarrow>
          (case List.find (\<lambda>m. type m = ''photo'' \<and> preview_image_url m \<noteq> None
                                 \<and> preview_image_url m \<noteq> Some []) ms of
             Some m \<Rightarrow> preview_image_url m
           | None \<Rightarrow>
               (case List.find (\<lambda>m. type m = ''video'' \<and> preview_image_url m \<noteq> None
                                      \<and> preview_image_url m \<noteq> Some []) ms of
                  Some m \<Rightarrow> preview_image_url m
                | None \<Rightarrow> None)))"

text \<open>The attached media list of a response; an absent list has no attachment.\<close>

definition attached_media :: "tweet_result \<Rightarrow> media_object list" where
  "attached_media tweet =
     (case Option.bind (includes' tweet) media of None \<Rightarrow> [] | Some ms \<Rightarrow> ms)"

section \<open>The schema-validated variant\<close>

definition TWEET_ID :: string where
  "TWEET_ID = ''1921299860000518230''"

definition referenceImageUrls :: "string list" where
  "referenceImageUrls =
     [''https://raw.githubusercontent.com/KuphJr/proof-of-hat/main/tunnl-hat-front.jpg'',
      ''https://raw.githubusercontent.com/KuphJr/proof-of-hat/main/tunnl-hat-side-1.jpg'',
      ''https://raw.githubusercontent.com/KuphJr/proof-of-hat/main/tunnl-hat-side-2.jpg'']"

definition systemPrompt :: string where
  \<open>systemPrompt =
     ''You are a vision model that analyzes images to determine if they contain a black baseball hat with a "tunnl" logo on it anywhere within the image.''\<close>

definition userPrompt :: string where
  \<open>userPrompt =
     ''The first 3 images are reference photos of the black baseball cap with the white "tunnl" logo. The last image is the image you are analyzing.\<newline>''
   @ ''Please analyze the final image and return your answer in this exact JSON format:\<newline>''
   @ ''{\<newline>''
   @ ''  "result": true if the image contains a black baseball hat with a "tunnl" logo on it. false if you cannot see the hat with the logo anywhere in the image.\<newline>''
   @ ''  "reasoning": "Short explanation of why or why not you think the image contains a black baseball hat with a "tunnl" logo on it."\<newline>''
   @ ''}\<newline>''
   @ ''\<newline>''
   @ ''Only output the JSON object.''\<close>

text \<open>The zod schema \<^verbatim>\<open>verificationResponseSchema\<close>: field, type, description.\<close>

datatype field_type = z_boolean | z_string

definition verificationResponseSchema :: "(string \<times> field_type \<times> string) list" where
  "verificationResponseSchema =
     [(''result'', z_boolean, ''Whether the image contains a Tunnl hat.''),
      (''reasoning'', z_string, ''A short explanation of the reasoning for the result.'')]"

text \<open>\<^verbatim>\<open>zodResponseFormat(schema, name)\<close> and \<^verbatim>\<open>zodTextFormat(schema, name)\<close>.\<close>

record schema_format =
  format_schema :: "(string \<times> field_type \<times> string) list"
  format_name :: string

datatype content_part = text_part string | image_url_part string

datatype chat_message = system_message string | user_message "content_part list"

record chat_request =
  model :: string
  temperature :: int
  messages :: "chat_message list"
  response_format :: schema_format

record parsed_message =
  parsed :: "verification option"

record chat_choice =
  message :: "parsed_message option"

record chat_completion =
  choices :: "chat_choice list"

definition askOpenAIAboutImage ::
  "string \<Rightarrow> (chat_request \<Rightarrow> thrown + chat_completion)
     \<Rightarrow> (chat_request, verification option) effect" where
  "askOpenAIAboutImage image_url parse =
     (let referenceImageMessages = map image_url_part referenceImageUrls;
          imageToAnalyzeMessage = image_url_part image_url;
          request =
            \<lparr>model = ''gpt-4o'',
             temperature = 0,
             messages =
               [system_message systemPrompt,
                user_message
                  ([text_part userPrompt] @ referenceImageMessages @ [imageToAnalyzeMessage])],
             response_format =
               \<lparr>format_schema = verificationResponseSchema, format_name = ''response''\<rparr>\<rparr>
      in case parse request of
           Inr completion \<Rightarrow>
             \<lparr>sent = [request],
              console = [],
              outcome =
                Inr (case choices completion of
                       [] \<Rightarrow> None
                     | c # _ \<Rightarrow> Option.bind (message c) parsed)\<rparr>
         | Inl error \<Rightarrow>
             \<lparr>sent = [request],
              console =
                [console_error
                   [Str ''Error asking OpenAI:'',
                    (case error of Error m \<Rightarrow> Str m | NonError \<Rightarrow> Thrown error)]],
              outcome =
                Inl (Error (''Failed to get response from OpenAI about the image. ''
                            @ message_or [] error))\<rparr>)"

text \<open>
  Everything outside the script: the two secrets of the environment, the constructors of
  the two clients (\<^const>\<open>None\<close> when the client is built, the thrown value otherwise)
  and the two remote calls.
\<close>

record 'svc world =
  OPENAI_API_KEY :: "string option"
  TWITTER_BEARER_TOKEN :: "string option"
  new_OpenAI :: "string option \<Rightarrow> thrown option"
  new_TwitterApi :: "string option \<Rightarrow> thrown option"
  singleTweet :: "string \<Rightarrow> lookup_options \<Rightarrow> thrown + tweet_result"
  inference :: 'svc

text \<open>
  A finished run. A process that ends without \<^verbatim>\<open>process.exit\<close> has exit code 0; one
  ended by an exception that nothing catches has exit code 1, and the runtime's report
  of that exception is not a console call.
\<close>

record 'q run =
  lookups :: "(string \<times> lookup_options) list"
  requests :: "'q list"
  printed :: "console_call list"
  exit_code :: nat

definition exited :: "console_call list \<Rightarrow> nat \<Rightarrow> 'q run" where
  "exited out code = \<lparr>lookups = [], requests = [], printed = out, exit_code = code\<rparr>"

text \<open>
  The \<^verbatim>\<open>catch\<close> block of \<^verbatim>\<open>main\<close> in \<^verbatim>\<open>src/index.ts\<close>. The whole body of
  \<^verbatim>\<open>main\<close> sits in one \<^verbatim>\<open>try\<close> and this block only logs and exits, so the promise
  of \<^verbatim>\<open>main()\<close> never rejects and the handler of \<^verbatim>\<open>main().catch\<close> has nothing to
  catch; the same holds in the free-text variant.
\<close>

definition main_catch ::
  "(string \<times> lookup_options) list \<Rightarrow> 'q list \<Rightarrow> console_call list \<Rightarrow> thrown \<Rightarrow> 'q run" where
  "main_catch ls rs out error =
     (let errorMessage = message_or ''An unknown error occurred'' error in
      \<lparr>lookups = ls, requests = rs,
       printed = out
         @ [console_error [Str ''Error in main execution:'', Str errorMessage, Thrown error]],
       exit_code = 1\<rparr>)"

definition main ::
  "(chat_request \<Rightarrow> thrown + chat_completion) world \<Rightarrow> chat_request run" where
  "main W =
     (let out0 = [console_log [Str (''Processing Tweet ID: '' @ TWEET_ID)]];
          fetched = fetchTweetData TWEET_ID (singleTweet W)
      in case outcome fetched of
           Inl error \<Rightarrow> main_catch (sent fetched) [] (out0 @ console fetched) error
         | Inr tweetData \<Rightarrow>
             (let out1 = out0 @ console fetched
                    @ [console_log [Str (''Image URL: '' @ interp (imageUrl tweetData))]];
                  no_image = Error (''No image URL found for Tweet ID: '' @ TWEET_ID @ ''.'')
              in case imageUrl tweetData of
                   None \<Rightarrow> main_catch (sent fetched) [] out1 no_image
                 | Some image_url \<Rightarrow>
                     if image_url = [] then main_catch (sent fetched) [] out1 no_image
                     else
                       (let asked = askOpenAIAboutImage image_url (inference W)
                        in case outcome asked of
                             Inl error \<Rightarrow>
                               main_catch (sent fetched) (sent asked) (out1 @ console asked) error
                           | Inr openAIResponse \<Rightarrow>
                               \<lparr>lookups = sent fetched, requests = sent asked,
                                printed = out1 @ console asked
                                  @ [console_log
                                       [case openAIResponse of
                                          None \<Rightarrow> Undefined
                                        | Some v \<Rightarrow> Parsed v]],
                                exit_code = 0\<rparr>)))"

text \<open>
  \<^verbatim>\<open>src/index.ts\<close> from its first line: the two configuration checks, the two clients,
  then \<^verbatim>\<open>main()\<close>.
\<close>

definition program ::
  "(chat_request \<Rightarrow> thrown + chat_completion) world \<Rightarrow> chat_request run" where
  "program W =
     (if \<not> truthy (OPENAI_API_KEY W) then
        exited [console_error [Str ''Error: OPENAI_API_KEY is not set in the .env file.'']] 1
      else if \<not> truthy (TWITTER_BEARER_TOKEN W) then
        exited [console_error [Str ''Error: TWITTER_BEARER_TOKEN is not set in the .env file. This is required to fetch tweet data.'']] 1
      else
        (case new_OpenAI W (OPENAI_API_KEY W) of
           Some uncaught \<Rightarrow> exited [] 1
         | None \<Rightarrow>
             (case new_TwitterApi W (TWITTER_BEARER_TOKEN W) of
                Some uncaught \<Rightarrow> exited [] 1
              | None \<Rightarrow> main W)))"

section \<open>The free-text variant\<close>

text \<open>
  The earlier variant of the script. Its \<^verbatim>\<open>fetchTweetData\<close> is the one above, line
  for line; its tweet, its inference request and its \<^verbatim>\<open>main\<close> differ.
\<close>

definition TWEET_ID_ft :: string where
  "TWEET_ID_ft = ''1921316529062265045''"

definition question :: string where
  \<open>question =
     ''Does this picture contain a black baseball hat with a "tunnl" logo on it?\<newline>''
   @ ''I have provided you with 3 example images of the hat with the Tunnl logo on it named "tunnl-hat-front.jpg", "tunnl-hat-side-1.jpg", and "tunnl-hat-side-2.jpg".\<newline>''
   @ ''The image you are analyzing is named "posted-image.jpg".\<newline>''
   @ ''If you cannot see the hat with the logo anywhere in the image, respond with "no".\<newline>''
   @ ''If you can see the hat with the logo anywhere in the image, respond with "yes".\<newline>''\<close>

datatype input_part = input_text string | input_image string

datatype input_message = user_input "input_part list"

record responses_request =
  r_model :: string
  r_temperature :: int
  r_input :: "input_message list"
  r_text_format :: schema_format

text \<open>
  The response, by the fields the code reads from it. The field \<^verbatim>\<open>choices\<close> is
  optional: the object that \<^verbatim>\<open>responses.create\<close> resolves to has no such field, and
  then \<^verbatim>\<open>response.choices[0]\<close> throws a \<^verbatim>\<open>TypeError\<close> inside the \<^verbatim>\<open>try\<close> block.
  The message of that error is the engine's; the wording used here is V8's.
\<close>

record text_message =
  content :: "string option"

record text_choice =
  r_message :: "text_message option"

record text_response =
  r_choices :: "text_choice list option"

definition choices_TypeError :: thrown where
  "choices_TypeError = Error ''Cannot read properties of undefined (reading '0')''"

definition askOpenAIAboutImage_ft ::
  "string \<Rightarrow> string \<Rightarrow> (responses_request \<Rightarrow> thrown + text_response)
     \<Rightarrow> (responses_request, string option) effect" where
  "askOpenAIAboutImage_ft image_url question_text create =
     (let request =
            \<lparr>r_model = ''gpt-4o'',
             r_temperature = 0,
             r_input = [user_input [input_text question_text]],
             r_text_format =
               \<lparr>format_schema = verificationResponseSchema, format_name = ''response''\<rparr>\<rparr>;
          tried =
            (case create request of
               Inl error \<Rightarrow> Inl error
             | Inr response \<Rightarrow>
                 (case r_choices response of
                    None \<Rightarrow> Inl choices_TypeError
                  | Some [] \<Rightarrow> Inr None
                  | Some (c # _) \<Rightarrow> Inr (Option.bind (r_message c) content)))
      in case tried of
           Inr returned \<Rightarrow> \<lparr>sent = [request], console = [], outcome = Inr returned\<rparr>
         | Inl error \<Rightarrow>
             \<lparr>sent = [request],
              console =
                [console_error
                   [Str ''Error asking OpenAI:'',
                    (case error of Error m \<Rightarrow> Str m | NonError \<Rightarrow> Thrown error)]],
              outcome =
                Inl (Error (''Failed to get response from OpenAI about the image. ''
                            @ message_or [] error))\<rparr>)"

text \<open>
  \<^verbatim>\<open>String.prototype.includes\<close> is the search for a contiguous substring.
  \<^verbatim>\<open>String.prototype.toLowerCase\<close> belongs to the runtime and is a parameter of
  \<^verbatim>\<open>main\<close> below. On text made of ASCII characters it is the map of the letters A
  to Z that follows, which serves where the script is run on a concrete response.
\<close>

definition ascii_toLowerCase :: "string \<Rightarrow> string" where
  "ascii_toLowerCase s =
     map (\<lambda>c. case map_of (zip ''ABCDEFGHIJKLMNOPQRSTUVWXYZ'' ''abcdefghijklmnopqrstuvwxyz'') c of
                 None \<Rightarrow> c
               | Some l \<Rightarrow> l) s"

fun str_includes :: "string \<Rightarrow> string \<Rightarrow> bool" where
  "str_includes [] k = (k = [])"
| "str_includes (c # cs) k = (prefix k (c # cs) \<or> str_includes cs k)"

definition positiveKeywords :: "string list" where
  "positiveKeywords = [''yes'', ''it does'', ''shows a black baseball hat'']"

definition negativeKeywords :: "string list" where
  "negativeKeywords = [''no'', ''it does not'', ''does not show'']"

text \<open>
  The variable \<^verbatim>\<open>result\<close> of \<^verbatim>\<open>main\<close> after the keyword checks;
  \<^const>\<open>None\<close> is \<^verbatim>\<open>undefined\<close>.
\<close>

definition keyword_result :: "string \<Rightarrow> bool option" where
  "keyword_result responseLower =
     (if list_ex (\<lambda>keyword. str_includes responseLower keyword) positiveKeywords then Some True
      else if list_ex (\<lambda>keyword. str_includes responseLower keyword) negativeKeywords
      then Some False
      else None)"

text \<open>What \<^verbatim>\<open>main\<close> logs about a non-empty response, after echoing it.\<close>

definition verdict_lines :: "(string \<Rightarrow> string) \<Rightarrow> string \<Rightarrow> console_call list" where
  "verdict_lines toLowerCase openAIResponse =
     (let responseLower = toLowerCase openAIResponse in
      case keyword_result responseLower of
        Some r \<Rightarrow>
          [console_log
             [Str (''Does the image contain a black baseball hat with white lettering? ''
                   @ (if r then ''true'' else ''false''))]]
      | None \<Rightarrow>
          [console_log [Str ''Could not definitively determine the answer from OpenAI's response.''],
           console_log [Str ''Full OpenAI response:'', Str openAIResponse],
           console_log [Str ''Assuming 'false' due to ambiguous response for: Does the image contain a black baseball hat with white lettering?'']])"

text \<open>The \<^verbatim>\<open>else\<close> branch of \<^verbatim>\<open>if (openAIResponse)\<close>.\<close>

definition no_response_lines :: "console_call list" where
  \<open>no_response_lines =
     [console_log [Str ''OpenAI did not provide a response.''],
      console_log [Str ''Result for "Does the image contain a black baseball hat with white lettering?": false (no OpenAI response)'']]\<close>

text \<open>The \<^verbatim>\<open>catch\<close> block of \<^verbatim>\<open>main\<close> in the free-text variant: it logs and returns.\<close>

definition main_catch_ft ::
  "(string \<times> lookup_options) list \<Rightarrow> 'q list \<Rightarrow> console_call list \<Rightarrow> thrown \<Rightarrow> 'q run" where
  \<open>main_catch_ft ls rs out error =
     (let errorMessage = message_or ''An unknown error occurred'' error in
      \<lparr>lookups = ls, requests = rs,
       printed = out
         @ [console_error [Str ''Error in main execution:'', Str errorMessage, Thrown error],
            console_log
              [Str (''Result for "Does the image contain a black baseball hat with white lettering?": false (due to error: ''
                    @ errorMessage @ '')'')]],
       exit_code = 0\<rparr>)\<close>

definition main_ft ::
  "(string \<Rightarrow> string) \<Rightarrow> (responses_request \<Rightarrow> thrown + text_response) world
     \<Rightarrow> responses_request run" where
  \<open>main_ft toLowerCase W =
     (let out0 = [console_log [Str (''Processing Tweet ID: '' @ TWEET_ID_ft)]];
          fetched = fetchTweetData TWEET_ID_ft (singleTweet W)
      in case outcome fetched of
           Inl error \<Rightarrow> main_catch_ft (sent fetched) [] (out0 @ console fetched) error
         | Inr tweetData \<Rightarrow>
             (let out1 = out0 @ console fetched;
                  no_image = Error (''No image URL found for Tweet ID: '' @ TWEET_ID_ft @ ''.'')
              in case imageUrl tweetData of
                   None \<Rightarrow> main_catch_ft (sent fetched) [] out1 no_image
                 | Some image_url \<Rightarrow>
                     if image_url = [] then main_catch_ft (sent fetched) [] out1 no_image
                     else
                       (let asked = askOpenAIAboutImage_ft image_url question (inference W)
                        in case outcome asked of
                             Inl error \<Rightarrow>
                               main_catch_ft (sent fetched) (sent asked) (out1 @ console asked) error
                           | Inr openAIResponse \<Rightarrow>
                               \<lparr>lookups = sent fetched, requests = sent asked,
                                printed = out1 @ console asked
                                  @ (case openAIResponse of
                                       None \<Rightarrow> no_response_lines
                                     | Some response \<Rightarrow>
                                         if response = [] then no_response_lines
                                         else console_log [Str ''OpenAI Response:'', Str response]
                                                # verdict_lines toLowerCase response),
                                exit_code = 0\<rparr>)))\<close>

text \<open>
  The free-text script from its first line: the inference client is built before the
  two configuration checks.
\<close>

definition program_ft ::
  "(string \<Rightarrow> string) \<Rightarrow> (responses_request \<Rightarrow> thrown + text_response) world
     \<Rightarrow> responses_request run" where
  "program_ft toLowerCase W =
     (case new_OpenAI W (OPENAI_API_KEY W) of
        Some uncaught \<Rightarrow> exited [] 1
      | None \<Rightarrow>
          if \<not> truthy (OPENAI_API_KEY W) then
            exited [console_error [Str ''Error: OPENAI_API_KEY is not set in the .env file.'']] 1
          else if \<not> truthy (TWITTER_BEARER_TOKEN W) then
            exited [console_error [Str ''Error: TWITTER_BEARER_TOKEN is not set in the .env file. This is required to fetch tweet data.'']] 1
          else
            (case new_TwitterApi W (TWITTER_BEARER_TOKEN W) of
               Some uncaught \<Rightarrow> exited [] 1
             | None \<Rightarrow> main_ft toLowerCase W))"

section \<open>Stub services and sample responses\<close>

text \<open>
  Services that answer every call with one fixed reply, a constructor that always builds
  its client, and a few responses of the tweet lookup, for evaluating the script on
  concrete inputs.
\<close>

definition lookup_returns ::
  "thrown + tweet_result \<Rightarrow> string \<Rightarrow> lookup_options \<Rightarrow> thrown + tweet_result" where
  "lookup_returns reply tweetId options = reply"

definition service_returns :: "thrown + 'r \<Rightarrow> 'q \<Rightarrow> thrown + 'r" where
  "service_returns reply request = reply"


definition constructs :: "string option \<Rightarrow> thrown option" where
  "constructs key = None"

definition photo_with_both :: media_object where
  "photo_with_both =
     \<lparr>type = ''photo'', url = Some ''https://pbs.twimg.com/media/a.jpg'',
      preview_image_url = Some ''https://pbs.twimg.com/media/a_preview.jpg''\<rparr>"

definition video_with_preview :: media_object where
  "video_with_preview =
     \<lparr>type = ''video'', url = None,
      preview_image_url = Some ''https://pbs.twimg.com/media/v_thumb.jpg''\<rparr>"

definition tweet_with :: "media_object list \<Rightarrow> tweet_result" where
  "tweet_with ms =
     \<lparr>errors = None, data = Some \<lparr>tweet_text = Some ''my hat''\<rparr>,
      includes' = Some \<lparr>media = Some ms\<rparr>\<rparr>"

definition tweet_with_partial_error :: tweet_result where
  "tweet_with_partial_error =
     \<lparr>errors = Some [\<lparr>detail = Some ''Could not find media with media_keys: [3_1].'',
                       title = Some ''Not Found Error''\<rparr>],
      data = Some \<lparr>tweet_text = Some ''my hat''\<rparr>,
      includes' = None\<rparr>"

definition tweet_not_found :: tweet_result where
  "tweet_not_found =
     \<lparr>errors = Some [\<lparr>detail = Some ''Could not find tweet with id: [1921316529062265045].'',
                       title = Some ''Not Found Error''\<rparr>],
      data = None, includes' = None\<rparr>"

text \<open>
  A world in which the script gets as far as \<^verbatim>\<open>main()\<close>: both secrets are set and
  both clients are built.
\<close>

definition configured :: "'svc world \<Rightarrow> bool" where
  "configured W \<longleftrightarrow>
     truthy (OPENAI_API_KEY W) \<and> truthy (TWITTER_BEARER_TOKEN W)
     \<and> new_OpenAI W (OPENAI_API_KEY W) = None
     \<and> new_TwitterApi W (TWITTER_BEARER_TOKEN W) = None"

definition sample_world :: "string option \<Rightarrow> thrown + tweet_result \<Rightarrow> 'svc \<Rightarrow> 'svc world" where
  "sample_world key reply svc =
     \<lparr>OPENAI_API_KEY = key, TWITTER_BEARER_TOKEN = Some ''bearer-token'',
      new_OpenAI = constructs, new_TwitterApi = constructs,
      singleTweet = lookup_returns reply, inference = svc\<rparr>"

section \<open>Properties of the tweet resolver\<close>

lemma truthy_iff: "truthy s \<longleftrightarrow> s \<noteq> None \<and> s \<noteq> Some []"
  by (cases s) (simp_all add: truthy_def)

lemma find_bind_truthy:
  "truthy (Option.bind (List.find (\<lambda>m. t m \<and> truthy (f m)) ms) f)
     \<longleftrightarrow> List.find (\<lambda>m. t m \<and> truthy (f m)) ms \<noteq> None"
proof (cases "List.find (\<lambda>m. t m \<and> truthy (f m)) ms")
  case None
  then show ?thesis by (simp add: truthy_def)
next
  case (Some m)
  then have "truthy (f m)" by (auto simp: find_Some_iff)
  with Some show ?thesis by simp
qed

lemma spec_select_truthy:
  "spec_select ms =
     (case List.find (\<lambda>m. type m = ''photo'' \<and> truthy (url m)) ms of
        Some m \<Rightarrow> url m
      | None \<Rightarrow>
          (case List.find (\<lambda>m. type m = ''photo'' \<and> truthy (preview_image_url m)) ms of
             Some m \<Rightarrow> preview_image_url m
           | None \<Rightarrow>
               (case List.find (\<lambda>m. type m = ''video'' \<and> truthy (preview_image_url m)) ms of
                  Some m \<Rightarrow> preview_image_url m
                | None \<Rightarrow> None)))"
  unfolding spec_select_def truthy_iff conj_assoc ..

lemma select_imageUrl_Some: "select_imageUrl (Some ms) = spec_select ms"
proof (cases ms)
  case Nil
  then show ?thesis by (simp add: select_imageUrl_def spec_select_def)
next
  case (Cons a as)
  let ?p1 = "List.find (\<lambda>m. type m = ''photo'' \<and> truthy (url m)) ms"
  let ?p2 = "List.find (\<lambda>m. type m = ''photo'' \<and> truthy (preview_image_url m)) ms"
  let ?p3 = "List.find (\<lambda>m. type m = ''video'' \<and> truthy (preview_image_url m)) ms"
  from Cons have len: "length ms > 0" by simp
  show ?thesis
  proof (cases ?p1)
    case (Some m)
    then show ?thesis
      using len find_bind_truthy [of "\<lambda>m. type m = ''photo''" url ms]
      by (simp add: select_imageUrl_def spec_select_truthy)
  next
    case p1: None
    show ?thesis
    proof (cases ?p2)
      case (Some m)
      then show ?thesis
        using len p1 find_bind_truthy [of "\<lambda>m. type m = ''photo''" preview_image_url ms]
        by (simp add: select_imageUrl_def spec_select_truthy truthy_def)
    next
      case p2: None
      show ?thesis
      proof (cases ?p3)
        case (Some m)
        then show ?thesis
          using len p1 p2 find_bind_truthy [of "\<lambda>m. type m = ''video''" preview_image_url ms]
          by (simp add: select_imageUrl_def spec_select_truthy truthy_def)
      next
        case None
        then show ?thesis
          using len p1 p2 by (simp add: select_imageUrl_def spec_select_truthy truthy_def)
      qed
    qed
  qed
qed

lemma select_imageUrl_None: "select_imageUrl None = spec_select []"
  by (simp add: select_imageUrl_def spec_select_def)

lemma select_imageUrl_attached:
  "select_imageUrl (Option.bind (includes' tweet) media) = spec_select (attached_media tweet)"
  by (cases "Option.bind (includes' tweet) media")
     (simp_all add: attached_media_def select_imageUrl_Some select_imageUrl_None)

lemma fetchTweetData_try_ok:
  assumes "errors tweet = None \<or> errors tweet = Some []" and "data tweet = Some d"
  shows "fetchTweetData_try tweetId (Inr tweet) =
           ((if \<not> truthy (spec_select (attached_media tweet))
             then [console_warn
                     [Str (''Tweet '' @ tweetId @
                        '' does not appear to contain a usable image URL (photo or video thumbnail).'')]]
             else []),
            Inr \<lparr>imageUrl = spec_select (attached_media tweet), text' = tweet_text d\<rparr>)"
  using assms by (auto simp: fetchTweetData_try_def Let_def select_imageUrl_attached)

lemma fetchTweetData_ok:
  assumes "api tweetId tweet_lookup_options = Inr tweet"
    and "errors tweet = None \<or> errors tweet = Some []" and "data tweet = Some d"
  shows "fetchTweetData tweetId api =
           \<lparr>sent = [(tweetId, tweet_lookup_options)],
            console = console_log [Str (''Fetching tweet from Twitter API: '' @ tweetId)]
              # (if \<not> truthy (spec_select (attached_media tweet))
                 then [console_warn
                     [Str (''Tweet '' @ tweetId @
                        '' does not appear to contain a usable image URL (photo or video thumbnail).'')]]
                 else []),
            outcome = Inr \<lparr>imageUrl = spec_select (attached_media tweet), text' = tweet_text d\<rparr>\<rparr>"
  unfolding fetchTweetData_def Let_def assms(1) fetchTweetData_try_ok [OF assms(2,3)]
  by simp

lemma find_SomeD': "List.find P xs = Some x \<Longrightarrow> x \<in> set xs \<and> P x"
  by (auto simp: find_Some_iff)

lemma fetchTweetData_try_returns:
  assumes "snd (fetchTweetData_try tweetId reply) = Inr r"
  shows "\<exists>tweet d. reply = Inr tweet
           \<and> (errors tweet = None \<or> errors tweet = Some []) \<and> data tweet = Some d"
proof (cases reply)
  case (Inl e)
  with assms show ?thesis by (simp add: fetchTweetData_try_def)
next
  case (Inr tweet)
  show ?thesis
  proof (cases "errors tweet = None \<or> errors tweet = Some []")
    case True
    show ?thesis
    proof (cases "data tweet")
      case None
      with assms Inr True show ?thesis
        by (auto simp: fetchTweetData_try_def)
    next
      case (Some d)
      with Inr True show ?thesis by simp
    qed
  next
    case False
    then obtain e0 es where "errors tweet = Some (e0 # es)"
      by (cases "errors tweet"; cases "the (errors tweet)") auto
    with assms Inr show ?thesis
      by (simp add: fetchTweetData_try_def Let_def)
  qed
qed

lemma fetchTweetData_outcome:
  "outcome (fetchTweetData tweetId api) =
     (case snd (fetchTweetData_try tweetId (api tweetId tweet_lookup_options)) of
        Inr v \<Rightarrow> Inr v
      | Inl error \<Rightarrow>
          Inl (Error (''Failed to process tweet '' @ tweetId @ '': ''
                      @ message_or ''Unknown error'' error)))"
  by (simp add: fetchTweetData_def Let_def split: sum.splits)

lemma fetchTweetData_returns:
  assumes "outcome (fetchTweetData tweetId api) = Inr r"
  shows "\<exists>tweet d. api tweetId tweet_lookup_options = Inr tweet
           \<and> (errors tweet = None \<or> errors tweet = Some []) \<and> data tweet = Some d"
proof -
  from assms have "snd (fetchTweetData_try tweetId (api tweetId tweet_lookup_options)) = Inr r"
    by (simp add: fetchTweetData_outcome split: sum.splits)
  then show ?thesis by (rule fetchTweetData_try_returns)
qed

lemma spec_select_video:
  assumes "\<forall>m\<in>set ms. type m \<noteq> ''photo''"
    and "\<exists>v\<in>set ms. type v = ''video'' \<and> truthy (preview_image_url v)"
  shows "\<exists>v\<in>set ms. type v = ''video'' \<and> truthy (preview_image_url v)
           \<and> spec_select ms = preview_image_url v"
proof -
  have p1: "List.find (\<lambda>m. type m = ''photo'' \<and> truthy (url m)) ms = None"
    using assms(1) by (auto simp: find_None_iff)
  have p2: "List.find (\<lambda>m. type m = ''photo'' \<and> truthy (preview_image_url m)) ms = None"
    using assms(1) by (auto simp: find_None_iff)
  obtain v where v: "List.find (\<lambda>m. type m = ''video'' \<and> truthy (preview_image_url m)) ms = Some v"
    using assms(2)
    by (cases "List.find (\<lambda>m. type m = ''video'' \<and> truthy (preview_image_url m)) ms")
       (auto simp: find_None_iff)
  from v have "v \<in> set ms" "type v = ''video''" "truthy (preview_image_url v)"
    by (auto dest: find_SomeD')
  moreover have "spec_select ms = preview_image_url v"
    using p1 p2 v by (simp add: spec_select_truthy)
  ultimately show ?thesis by blast
qed

lemma spec_select_photo_url:
  assumes "\<exists>m\<in>set ms. type m = ''photo'' \<and> truthy (url m)"
  shows "\<exists>p\<in>set ms. type p = ''photo'' \<and> truthy (url p) \<and> spec_select ms = url p"
proof -
  obtain p where p: "List.find (\<lambda>m. type m = ''photo'' \<and> truthy (url m)) ms = Some p"
    using assms
    by (cases "List.find (\<lambda>m. type m = ''photo'' \<and> truthy (url m)) ms")
       (auto simp: find_None_iff)
  from p have "p \<in> set ms" "type p = ''photo''" "truthy (url p)"
    by (auto dest: find_SomeD')
  moreover have "spec_select ms = url p"
    using p by (simp add: spec_select_truthy)
  ultimately show ?thesis by blast
qed

lemma spec_select_Some:
  assumes "spec_select ms = Some u"
  shows "u \<noteq> [] \<and>
         (\<exists>m\<in>set ms. (type m = ''photo'' \<and> url m = Some u)
                  \<or> (type m = ''photo'' \<and> preview_image_url m = Some u)
                  \<or> (type m = ''video'' \<and> preview_image_url m = Some u))"
proof -
  let ?p1 = "List.find (\<lambda>m. type m = ''photo'' \<and> truthy (url m)) ms"
  let ?p2 = "List.find (\<lambda>m. type m = ''photo'' \<and> truthy (preview_image_url m)) ms"
  let ?p3 = "List.find (\<lambda>m. type m = ''video'' \<and> truthy (preview_image_url m)) ms"
  show ?thesis
  proof (cases ?p1)
    case (Some m)
    then have m: "m \<in> set ms" "type m = ''photo''" "truthy (url m)"
      by (auto dest: find_SomeD')
    from Some assms have "url m = Some u" by (simp add: spec_select_truthy)
    with m have "u \<noteq> []" by (simp add: truthy_def)
    with m \<open>url m = Some u\<close> show ?thesis by blast
  next
    case p1: None
    show ?thesis
    proof (cases ?p2)
      case (Some m)
      then have m: "m \<in> set ms" "type m = ''photo''" "truthy (preview_image_url m)"
        by (auto dest: find_SomeD')
      from p1 Some assms have eq: "preview_image_url m = Some u"
        by (simp add: spec_select_truthy)
      with m have "u \<noteq> []" by (simp add: truthy_def)
      with m eq show ?thesis by blast
    next
      case p2: None
      show ?thesis
      proof (cases ?p3)
        case (Some m)
        then have m: "m \<in> set ms" "type m = ''video''" "truthy (preview_image_url m)"
          by (auto dest: find_SomeD')
        from p1 p2 Some assms have eq: "preview_image_url m = Some u"
          by (simp add: spec_select_truthy)
        with m have "u \<noteq> []" by (simp add: truthy_def)
        with m eq show ?thesis by blast
      next
        case None
        with p1 p2 assms show ?thesis by (simp add: spec_select_truthy)
      qed
    qed
  qed
qed

lemma attached_media_absent:
  "Option.bind (includes' tweet) media = None \<or> Option.bind (includes' tweet) media = Some []
     \<Longrightarrow> attached_media tweet = []"
  by (auto simp: attached_media_def)

lemma spec_select_no_candidate:
  assumes "\<forall>m\<in>set ms. \<not> (type m = ''photo'' \<and> truthy (url m))
                    \<and> \<not> (type m = ''photo'' \<and> truthy (preview_image_url m))
                    \<and> \<not> (type m = ''video'' \<and> truthy (preview_image_url m))"
  shows "spec_select ms = None"
proof -
  have "List.find (\<lambda>m. type m = ''photo'' \<and> truthy (url m)) ms = None"
    using assms by (auto simp: find_None_iff)
  moreover have "List.find (\<lambda>m. type m = ''photo'' \<and> truthy (preview_image_url m)) ms = None"
    using assms by (auto simp: find_None_iff)
  moreover have "List.find (\<lambda>m. type m = ''video'' \<and> truthy (preview_image_url m)) ms = None"
    using assms by (auto simp: find_None_iff)
  ultimately show ?thesis by (simp add: spec_select_truthy)
qed

text \<open>
  Claim C1. When the lookup returns a response without error entries and with tweet
  data, the resolver returns, and the image URL it returns is the one the four-rule
  precedence of the specification picks from the attached media, scanned in the order
  the API returned them. In particular, when some photo carries both a direct URL and a
  preview URL, the URL returned is the direct URL of a photo; and when the list holds
  no photo but a video with a preview URL, the URL returned is the preview URL of a
  video and is not empty.
\<close>

theorem selection_precedence:
  assumes "api tweetId tweet_lookup_options = Inr tweet"
    and "errors tweet = None \<or> errors tweet = Some []"
    and "data tweet = Some d"
  shows "\<exists>r. outcome (fetchTweetData tweetId api) = Inr r
           \<and> imageUrl r = spec_select (attached_media tweet)
           \<and> ((\<exists>m\<in>set (attached_media tweet).
                   type m = ''photo'' \<and> truthy (url m) \<and> truthy (preview_image_url m))
                \<longrightarrow> (\<exists>p\<in>set (attached_media tweet).
                       type p = ''photo'' \<and> truthy (url p) \<and> imageUrl r = url p))
           \<and> ((\<forall>m\<in>set (attached_media tweet). type m \<noteq> ''photo'')
                  \<and> (\<exists>v\<in>set (attached_media tweet).
                        type v = ''video'' \<and> truthy (preview_image_url v))
                \<longrightarrow> truthy (imageUrl r)
                    \<and> (\<exists>v\<in>set (attached_media tweet).
                          type v = ''video'' \<and> imageUrl r = preview_image_url v))"
proof -
  let ?ms = "attached_media tweet"
  let ?r = "\<lparr>imageUrl = spec_select ?ms, text' = tweet_text d\<rparr>"
  have out: "outcome (fetchTweetData tweetId api) = Inr ?r"
    using fetchTweetData_ok [where api = api and tweetId = tweetId, OF assms] by simp
  have direct: "\<exists>p\<in>set ?ms. type p = ''photo'' \<and> truthy (url p) \<and> spec_select ?ms = url p"
    if "\<exists>m\<in>set ?ms. type m = ''photo'' \<and> truthy (url m) \<and> truthy (preview_image_url m)"
    using that spec_select_photo_url [of ?ms] by blast
  have video: "truthy (spec_select ?ms)
      \<and> (\<exists>v\<in>set ?ms. type v = ''video'' \<and> spec_select ?ms = preview_image_url v)"
    if "(\<forall>m\<in>set ?ms. type m \<noteq> ''photo'')
          \<and> (\<exists>v\<in>set ?ms. type v = ''video'' \<and> truthy (preview_image_url v))"
  proof -
    from that obtain v where "v \<in> set ?ms" "type v = ''video''"
        "truthy (preview_image_url v)" "spec_select ?ms = preview_image_url v"
      using spec_select_video [of ?ms] by blast
    then show ?thesis by auto
  qed
  from out direct video show ?thesis by simp
qed

theorem selection_precedence_witness:
  "(\<exists>r. outcome (fetchTweetData ''1'' (lookup_returns (Inr (tweet_with [video_with_preview, photo_with_both])))) = Inr r
        \<and> imageUrl r = Some ''https://pbs.twimg.com/media/a.jpg'')
   \<and> (\<exists>r. outcome (fetchTweetData ''1'' (lookup_returns (Inr (tweet_with [video_with_preview])))) = Inr r
        \<and> imageUrl r = Some ''https://pbs.twimg.com/media/v_thumb.jpg'' \<and> truthy (imageUrl r))"
proof -
  let ?a = "tweet_with [video_with_preview, photo_with_both]"
  let ?b = "tweet_with [video_with_preview]"
  have "\<exists>r. outcome (fetchTweetData ''1'' (lookup_returns (Inr ?a))) = Inr r
        \<and> imageUrl r = Some ''https://pbs.twimg.com/media/a.jpg''"
    using selection_precedence [of "lookup_returns (Inr ?a)" "''1''" ?a "\<lparr>tweet_text = Some ''my hat''\<rparr>"]
    by (simp add: lookup_returns_def tweet_with_def attached_media_def spec_select_def
          photo_with_both_def video_with_preview_def truthy_def)
  moreover have "\<exists>r. outcome (fetchTweetData ''1'' (lookup_returns (Inr ?b))) = Inr r
        \<and> imageUrl r = Some ''https://pbs.twimg.com/media/v_thumb.jpg'' \<and> truthy (imageUrl r)"
    using selection_precedence [of "lookup_returns (Inr ?b)" "''1''" ?b "\<lparr>tweet_text = Some ''my hat''\<rparr>"]
    by (auto simp: lookup_returns_def tweet_with_def attached_media_def spec_select_def
          video_with_preview_def truthy_def)
  ultimately show ?thesis by blast
qed

text \<open>
  Claim C4. When the lookup returns a response whose \<^verbatim>\<open>errors\<close> array is not empty,
  the resolver throws an \<^verbatim>\<open>Error\<close> instead of returning. Its message is
  \<^verbatim>\<open>Failed to process tweet <id>: Failed to fetch tweet: \<close> followed by the detail of
  the first error entry, or by its title when the detail is absent or empty; so the
  message contains the first error's detail.
\<close>

theorem errors_fail_resolution:
  assumes "api tweetId tweet_lookup_options = Inr tweet"
    and "errors tweet = Some (e # es)"
  shows "\<exists>msg. outcome (fetchTweetData tweetId api) = Inl (Error msg)
           \<and> (\<forall>d. detail e = Some d \<and> d \<noteq> [] \<longrightarrow>
                  msg = ''Failed to process tweet '' @ tweetId @ '': Failed to fetch tweet: '' @ d)
           \<and> (\<forall>t. (detail e = None \<or> detail e = Some []) \<and> title e = Some t \<longrightarrow>
                  msg = ''Failed to process tweet '' @ tweetId @ '': Failed to fetch tweet: '' @ t)
           \<and> (\<forall>d. detail e = Some d \<longrightarrow> sublist d msg)"
proof -
  let ?pre = "''Failed to process tweet '' @ tweetId"
  let ?mid = "'': Failed to fetch tweet: ''"
  let ?msg = "?pre @ ?mid @ interp (or_else (detail e) (title e))"
  have "snd (fetchTweetData_try tweetId (Inr tweet))
          = Inl (Error (''Failed to fetch tweet: '' @ interp (or_else (detail e) (title e))))"
    using assms(2) by (simp add: fetchTweetData_try_def Let_def)
  then have out: "outcome (fetchTweetData tweetId api) = Inl (Error ?msg)"
    by (simp add: fetchTweetData_outcome assms(1))
  have d: "?msg = ?pre @ ?mid @ d" if "detail e = Some d \<and> d \<noteq> []" for d
    using that by (simp add: or_else_def truthy_def interp_def)
  have t: "?msg = ?pre @ ?mid @ t"
    if "(detail e = None \<or> detail e = Some []) \<and> title e = Some t" for t
    using that by (auto simp: or_else_def truthy_def interp_def)
  have s: "sublist d ?msg" if "detail e = Some d" for d
  proof (cases "d = []")
    case True
    then show ?thesis by simp
  next
    case False
    have "sublist d ((?pre @ ?mid) @ d @ [])" by (rule sublist_appendI)
    moreover from that False have "?msg = (?pre @ ?mid) @ d @ []" using d [of d] by simp
    ultimately show ?thesis by (simp only:)
  qed
  show ?thesis
  proof (intro exI [of _ ?msg] conjI allI impI)
    show "outcome (fetchTweetData tweetId api) = Inl (Error ?msg)" by (rule out)
  next
    fix d assume "detail e = Some d \<and> d \<noteq> []"
    then have "?msg = ?pre @ ?mid @ d" by (rule d)
    then show "?msg = ''Failed to process tweet '' @ tweetId @ ?mid @ d" by simp
  next
    fix t assume "(detail e = None \<or> detail e = Some []) \<and> title e = Some t"
    then have "?msg = ?pre @ ?mid @ t" by (rule t)
    then show "?msg = ''Failed to process tweet '' @ tweetId @ ?mid @ t" by simp
  next
    fix d assume "detail e = Some d"
    then show "sublist d ?msg" by (rule s)
  qed
qed

theorem errors_fail_resolution_witness:
  "outcome (fetchTweetData ''20''
      (lookup_returns (Inr \<lparr>errors = Some [\<lparr>detail = Some ''Could not find tweet with id: [20].'',
                                            title = Some ''Not Found Error''\<rparr>],
                            data = None, includes' = None\<rparr>)))
     = Inl (Error ''Failed to process tweet 20: Failed to fetch tweet: Could not find tweet with id: [20].'')"
  using errors_fail_resolution [of
      "lookup_returns (Inr \<lparr>errors = Some [\<lparr>detail = Some ''Could not find tweet with id: [20].'',
                                            title = Some ''Not Found Error''\<rparr>],
                            data = None, includes' = None\<rparr>)"
      "''20''"
      "\<lparr>errors = Some [\<lparr>detail = Some ''Could not find tweet with id: [20].'',
                                            title = Some ''Not Found Error''\<rparr>],
                            data = None, includes' = None\<rparr>"
      "\<lparr>detail = Some ''Could not find tweet with id: [20].'', title = Some ''Not Found Error''\<rparr>"
      "[]"]
  by (auto simp: lookup_returns_def)

text \<open>
  Claim C5, amended. When the lookup returns a response without error entries and with
  tweet data, and the media list is absent, empty, or holds no attachment that any of
  the three selection rules accepts, the resolver returns \<^verbatim>\<open>imageUrl: undefined\<close>
  together with the tweet's text, and its console calls are the opening diagnostic
  followed by exactly one warning; it does not throw.
\<close>

theorem no_image_returns_undefined:
  assumes "api tweetId tweet_lookup_options = Inr tweet"
    and "errors tweet = None \<or> errors tweet = Some []"
    and "data tweet = Some d"
    and "Option.bind (includes' tweet) media = None
         \<or> Option.bind (includes' tweet) media = Some []
         \<or> (\<forall>m\<in>set (attached_media tweet).
               \<not> (type m = ''photo'' \<and> truthy (url m))
               \<and> \<not> (type m = ''photo'' \<and> truthy (preview_image_url m))
               \<and> \<not> (type m = ''video'' \<and> truthy (preview_image_url m)))"
  shows "outcome (fetchTweetData tweetId api) = Inr \<lparr>imageUrl = None, text' = tweet_text d\<rparr>
         \<and> console (fetchTweetData tweetId api) =
             [console_log [Str (''Fetching tweet from Twitter API: '' @ tweetId)],
              console_warn
                [Str (''Tweet '' @ tweetId @
                   '' does not appear to contain a usable image URL (photo or video thumbnail).'')]]"
proof -
  have "\<forall>m\<in>set (attached_media tweet).
               \<not> (type m = ''photo'' \<and> truthy (url m))
               \<and> \<not> (type m = ''photo'' \<and> truthy (preview_image_url m))
               \<and> \<not> (type m = ''video'' \<and> truthy (preview_image_url m))"
    using assms(4) attached_media_absent [of tweet] by auto
  then have none: "spec_select (attached_media tweet) = None"
    by (rule spec_select_no_candidate)
  show ?thesis
    using fetchTweetData_ok [where api = api and tweetId = tweetId, OF assms(1-3)]
    by (simp add: none truthy_def)
qed

theorem no_image_returns_undefined_witness:
  "outcome (fetchTweetData ''1''
      (lookup_returns (Inr \<lparr>errors = None, data = Some \<lparr>tweet_text = Some ''no media''\<rparr>,
                            includes' = None\<rparr>)))
     = Inr \<lparr>imageUrl = None, text' = Some ''no media''\<rparr>
   \<and> console (fetchTweetData ''1''
      (lookup_returns (Inr \<lparr>errors = None, data = Some \<lparr>tweet_text = Some ''no media''\<rparr>,
                            includes' = None\<rparr>)))
     = [console_log [Str ''Fetching tweet from Twitter API: 1''],
        console_warn [Str ''Tweet 1 does not appear to contain a usable image URL (photo or video thumbnail).'']]"
  using no_image_returns_undefined [of
      "lookup_returns (Inr \<lparr>errors = None, data = Some \<lparr>tweet_text = Some ''no media''\<rparr>,
                            includes' = None\<rparr>)"
      "''1''"
      "\<lparr>errors = None, data = Some \<lparr>tweet_text = Some ''no media''\<rparr>, includes' = None\<rparr>"
      "\<lparr>tweet_text = Some ''no media''\<rparr>"]
  by (simp add: lookup_returns_def)

text \<open>
  Claim C5 as stated asks only for tweet data to be present. A response that carries
  tweet data and no media, but also one entry in \<^verbatim>\<open>errors\<close>, makes the resolver
  throw: the check of \<^verbatim>\<open>errors\<close> comes first.
\<close>

theorem no_image_counterexample:
  "data tweet_with_partial_error = Some \<lparr>tweet_text = Some ''my hat''\<rparr>
   \<and> Option.bind (includes' tweet_with_partial_error) media = None
   \<and> outcome (fetchTweetData ''1'' (lookup_returns (Inr tweet_with_partial_error)))
       = Inl (Error ''Failed to process tweet 1: Failed to fetch tweet: Could not find media with media_keys: [3_1].'')"
  by (simp add: tweet_with_partial_error_def fetchTweetData_def fetchTweetData_try_def
        lookup_returns_def Let_def or_else_def truthy_def interp_def)

text \<open>
  Claim C6. Whenever the resolver returns with an image URL present, that URL is not
  the empty string and is the direct URL of an attached photo, the preview URL of an
  attached photo, or the preview URL of an attached video of the response the lookup
  returned.
\<close>

theorem imageUrl_invariant:
  assumes "outcome (fetchTweetData tweetId api) = Inr r" and "imageUrl r = Some u"
  shows "u \<noteq> [] \<and>
         (\<exists>tweet. api tweetId tweet_lookup_options = Inr tweet
            \<and> (\<exists>m\<in>set (attached_media tweet).
                  (type m = ''photo'' \<and> url m = Some u)
                  \<or> (type m = ''photo'' \<and> preview_image_url m = Some u)
                  \<or> (type m = ''video'' \<and> preview_image_url m = Some u)))"
proof -
  from assms(1) obtain tweet d where
    tw: "api tweetId tweet_lookup_options = Inr tweet"
        "errors tweet = None \<or> errors tweet = Some []" "data tweet = Some d"
    using fetchTweetData_returns by blast
  have "outcome (fetchTweetData tweetId api)
          = Inr \<lparr>imageUrl = spec_select (attached_media tweet), text' = tweet_text d\<rparr>"
    using fetchTweetData_ok [where api = api and tweetId = tweetId, OF tw] by simp
  with assms have sel: "spec_select (attached_media tweet) = Some u" by auto
  from spec_select_Some [OF sel] tw(1) show ?thesis by blast
qed

theorem imageUrl_invariant_witness:
  "outcome (fetchTweetData ''1'' (lookup_returns (Inr (tweet_with [video_with_preview, photo_with_both]))))
     = Inr \<lparr>imageUrl = Some ''https://pbs.twimg.com/media/a.jpg'', text' = Some ''my hat''\<rparr>
   \<and> ''https://pbs.twimg.com/media/a.jpg'' \<noteq> []
   \<and> (\<exists>tweet. lookup_returns (Inr (tweet_with [video_with_preview, photo_with_both]))
                  ''1'' tweet_lookup_options = Inr tweet
         \<and> (\<exists>m\<in>set (attached_media tweet).
               (type m = ''photo'' \<and> url m = Some ''https://pbs.twimg.com/media/a.jpg'')
               \<or> (type m = ''photo''
                   \<and> preview_image_url m = Some ''https://pbs.twimg.com/media/a.jpg'')
               \<or> (type m = ''video''
                   \<and> preview_image_url m = Some ''https://pbs.twimg.com/media/a.jpg'')))"
proof -
  let ?tw = "tweet_with [video_with_preview, photo_with_both]"
  let ?r = "\<lparr>imageUrl = Some ''https://pbs.twimg.com/media/a.jpg'', text' = Some ''my hat''\<rparr>"
  have out: "outcome (fetchTweetData ''1'' (lookup_returns (Inr ?tw))) = Inr ?r"
    by (simp add: fetchTweetData_def fetchTweetData_try_def lookup_returns_def tweet_with_def
          select_imageUrl_def photo_with_both_def video_with_preview_def truthy_def Let_def)
  have url: "imageUrl ?r = Some ''https://pbs.twimg.com/media/a.jpg''" by simp
  from out imageUrl_invariant [OF out url] show ?thesis by (intro conjI) blast+
qed

section \<open>Properties of the schema-validated verifier\<close>

lemma askOpenAIAboutImage_sent:
  "sent (askOpenAIAboutImage image_url parse) =
     [\<lparr>model = ''gpt-4o'', temperature = 0,
       messages =
         [system_message systemPrompt,
          user_message
            (text_part userPrompt # map image_url_part referenceImageUrls
               @ [image_url_part image_url])],
       response_format =
         \<lparr>format_schema = verificationResponseSchema, format_name = ''response''\<rparr>\<rparr>]"
  by (simp add: askOpenAIAboutImage_def Let_def split: sum.splits)

lemma askOpenAIAboutImage_returned:
  assumes "sent (askOpenAIAboutImage image_url parse) = [req]"
    and "parse req = Inr completion"
  shows "askOpenAIAboutImage image_url parse =
           \<lparr>sent = [req], console = [],
            outcome = Inr (case choices completion of
                             [] \<Rightarrow> None
                           | c # _ \<Rightarrow> Option.bind (message c) parsed)\<rparr>"
proof -
  from assms(1) have req: "req = hd (sent (askOpenAIAboutImage image_url parse))" by simp
  show ?thesis
    using assms(2) unfolding req askOpenAIAboutImage_sent
    by (simp add: askOpenAIAboutImage_def Let_def)
qed

lemma main_completes:
  assumes "outcome (fetchTweetData TWEET_ID (singleTweet W)) = Inr td"
    and "imageUrl td = Some u" and "u \<noteq> []"
    and "outcome (askOpenAIAboutImage u (inference W)) = Inr v"
  shows "main W =
           \<lparr>lookups = sent (fetchTweetData TWEET_ID (singleTweet W)),
            requests = sent (askOpenAIAboutImage u (inference W)),
            printed =
              [console_log [Str (''Processing Tweet ID: '' @ TWEET_ID)]]
              @ console (fetchTweetData TWEET_ID (singleTweet W))
              @ [console_log [Str (''Image URL: '' @ u)]]
              @ console (askOpenAIAboutImage u (inference W))
              @ [console_log [case v of None \<Rightarrow> Undefined | Some x \<Rightarrow> Parsed x]],
            exit_code = 0\<rparr>"
  using assms by (simp add: main_def Let_def interp_def)

lemma program_configured: "configured W \<Longrightarrow> program W = main W"
  by (simp add: program_def configured_def)

lemma configured_sample_world: "configured (sample_world (Some ''sk-test'') reply svc)"
  by (simp add: configured_def sample_world_def constructs_def truthy_def)


text \<open>
  Claim C8. When the inference call returns and the first choice of the response
  carries a message with a parsed object, the schema-validated verifier returns that
  object as it is.
\<close>

theorem parsed_object_returned:
  assumes "sent (askOpenAIAboutImage image_url parse) = [req]"
    and "parse req = Inr completion"
    and "choices completion = c # cs"
    and "message c = Some m"
    and "parsed m = Some v"
  shows "outcome (askOpenAIAboutImage image_url parse) = Inr (Some v)"
  using askOpenAIAboutImage_returned [OF assms(1,2)] assms(3-5) by simp

theorem parsed_object_returned_witness:
  "outcome (askOpenAIAboutImage ''https://pbs.twimg.com/media/a.jpg''
      (service_returns
         (Inr \<lparr>choices = [\<lparr>message = Some \<lparr>parsed =
                   Some \<lparr>result = True, reasoning = ''hat visible on subject's head''\<rparr>\<rparr>\<rparr>]\<rparr>)))
     = Inr (Some \<lparr>result = True, reasoning = ''hat visible on subject's head''\<rparr>)"
  using parsed_object_returned [OF askOpenAIAboutImage_sent, of
      "service_returns
         (Inr \<lparr>choices = [\<lparr>message = Some \<lparr>parsed =
                   Some \<lparr>result = True, reasoning = ''hat visible on subject's head''\<rparr>\<rparr>\<rparr>]\<rparr>)"
      "''https://pbs.twimg.com/media/a.jpg''"
      "\<lparr>choices = [\<lparr>message = Some \<lparr>parsed =
                   Some \<lparr>result = True, reasoning = ''hat visible on subject's head''\<rparr>\<rparr>\<rparr>]\<rparr>"
      "\<lparr>message = Some \<lparr>parsed =
                   Some \<lparr>result = True, reasoning = ''hat visible on subject's head''\<rparr>\<rparr>\<rparr>"
      "[]"
      "\<lparr>parsed = Some \<lparr>result = True, reasoning = ''hat visible on subject's head''\<rparr>\<rparr>"
      "\<lparr>result = True, reasoning = ''hat visible on subject's head''\<rparr>"]
  by (simp add: service_returns_def)

text \<open>
  Claim C10. When the inference call returns but the response has no choice, or its
  first choice has no message, or that message has no parsed object, the
  schema-validated verifier returns \<^verbatim>\<open>undefined\<close>: it does not throw and it logs
  nothing. The caller then gets no verdict and no error: a script that reached the
  verifier with this image URL prints \<^verbatim>\<open>undefined\<close> last and exits with code 0.
\<close>

theorem absent_verdict_is_returned:
  assumes "sent (askOpenAIAboutImage image_url parse) = [req]"
    and "parse req = Inr completion"
    and "choices completion = []
         \<or> (\<exists>c cs. choices completion = c # cs
               \<and> (message c = None \<or> (\<exists>m. message c = Some m \<and> parsed m = None)))"
  shows "outcome (askOpenAIAboutImage image_url parse) = Inr None
         \<and> console (askOpenAIAboutImage image_url parse) = []
         \<and> (\<forall>W td. configured W \<and> inference W = parse
                \<and> outcome (fetchTweetData TWEET_ID (singleTweet W)) = Inr td
                \<and> imageUrl td = Some image_url \<and> image_url \<noteq> []
              \<longrightarrow> exit_code (program W) = 0
                  \<and> last (printed (program W)) = console_log [Undefined])"
proof -
  have ret: "outcome (askOpenAIAboutImage image_url parse) = Inr None"
    using askOpenAIAboutImage_returned [OF assms(1,2)] assms(3) by auto
  have quiet: "console (askOpenAIAboutImage image_url parse) = []"
    using askOpenAIAboutImage_returned [OF assms(1,2)] by simp
  have "exit_code (program W) = 0 \<and> last (printed (program W)) = console_log [Undefined]"
    if "configured W \<and> inference W = parse
          \<and> outcome (fetchTweetData TWEET_ID (singleTweet W)) = Inr td
          \<and> imageUrl td = Some image_url \<and> image_url \<noteq> []" for W td
  proof -
    from that have f: "outcome (fetchTweetData TWEET_ID (singleTweet W)) = Inr td"
      and i: "imageUrl td = Some image_url" and n: "image_url \<noteq> []"
      by blast+
    from that ret have "outcome (askOpenAIAboutImage image_url (inference W)) = Inr None"
      by simp
    from main_completes [OF f i n this]
    have "exit_code (main W) = 0 \<and> last (printed (main W)) = console_log [Undefined]"
      by simp
    moreover from that have "program W = main W" by (simp add: program_configured)
    ultimately show ?thesis by simp
  qed
  with ret quiet show ?thesis by blast
qed

theorem absent_verdict_is_returned_witness:
  "outcome (askOpenAIAboutImage ''https://pbs.twimg.com/media/a.jpg''
      (service_returns (Inr \<lparr>choices = []\<rparr>))) = Inr None
   \<and> outcome (askOpenAIAboutImage ''https://pbs.twimg.com/media/a.jpg''
      (service_returns (Inr \<lparr>choices = [\<lparr>message = Some \<lparr>parsed = None\<rparr>\<rparr>]\<rparr>))) = Inr None
   \<and> exit_code (program (sample_world (Some ''sk-test'') (Inr (tweet_with [photo_with_both]))
                (service_returns (Inr \<lparr>choices = []\<rparr>)))) = 0
   \<and> last (printed (program (sample_world (Some ''sk-test'') (Inr (tweet_with [photo_with_both]))
                (service_returns (Inr \<lparr>choices = []\<rparr>))))) = console_log [Undefined]"
proof -
  let ?u = "''https://pbs.twimg.com/media/a.jpg''"
  let ?p = "service_returns (Inr \<lparr>choices = []\<rparr>) :: chat_request \<Rightarrow> thrown + chat_completion"
  let ?q = "service_returns (Inr \<lparr>choices = [\<lparr>message = Some \<lparr>parsed = None\<rparr>\<rparr>]\<rparr>)
              :: chat_request \<Rightarrow> thrown + chat_completion"
  let ?W = "sample_world (Some ''sk-test'') (Inr (tweet_with [photo_with_both])) ?p"
  note a = absent_verdict_is_returned [OF askOpenAIAboutImage_sent, of ?p ?u "\<lparr>choices = []\<rparr>"]
  have a': "outcome (askOpenAIAboutImage ?u ?p) = Inr None
         \<and> console (askOpenAIAboutImage ?u ?p) = []
         \<and> (\<forall>W td. configured W \<and> inference W = ?p
                \<and> outcome (fetchTweetData TWEET_ID (singleTweet W)) = Inr td
                \<and> imageUrl td = Some ?u \<and> ?u \<noteq> []
              \<longrightarrow> exit_code (program W) = 0
                  \<and> last (printed (program W)) = console_log [Undefined])"
    by (rule a) (simp_all add: service_returns_def)
  have b: "outcome (askOpenAIAboutImage ?u ?q) = Inr None"
    using absent_verdict_is_returned [OF askOpenAIAboutImage_sent, of ?q ?u
        "\<lparr>choices = [\<lparr>message = Some \<lparr>parsed = None\<rparr>\<rparr>]\<rparr>"]
    by (simp add: service_returns_def)
  have f: "outcome (fetchTweetData TWEET_ID (singleTweet ?W))
             = Inr \<lparr>imageUrl = Some ?u, text' = Some ''my hat''\<rparr>"
    by (simp add: sample_world_def fetchTweetData_outcome fetchTweetData_try_def
          lookup_returns_def tweet_with_def select_imageUrl_def photo_with_both_def
          truthy_def Let_def)
  have c: "configured ?W" by (rule configured_sample_world)
  have i: "inference ?W = ?p" by (simp add: sample_world_def)
  from c i f have "exit_code (program ?W) = 0
      \<and> last (printed (program ?W)) = console_log [Undefined]"
    by (intro a' [THEN conjunct2, THEN conjunct2, rule_format, of ?W
          "\<lparr>imageUrl = Some ?u, text' = Some ''my hat''\<rparr>"]) simp
  with a' b show ?thesis by (intro conjI) simp_all
qed

section \<open>Properties of the free-text variant\<close>

lemma str_includes_sublist: "str_includes s k \<longleftrightarrow> sublist k s"
  by (induction s) (auto simp: sublist_Cons_right)

lemma positive_iff:
  "list_ex (\<lambda>keyword. str_includes s keyword) positiveKeywords
     \<longleftrightarrow> sublist ''yes'' s \<or> sublist ''it does'' s \<or> sublist ''shows a black baseball hat'' s"
  by (simp add: positiveKeywords_def str_includes_sublist)


lemma askOpenAIAboutImage_ft_sent:
  "sent (askOpenAIAboutImage_ft image_url q create) =
     [\<lparr>r_model = ''gpt-4o'', r_temperature = 0,
       r_input = [user_input [input_text q]],
       r_text_format =
         \<lparr>format_schema = verificationResponseSchema, format_name = ''response''\<rparr>\<rparr>]"
  by (simp add: askOpenAIAboutImage_ft_def Let_def split: sum.splits option.splits list.splits)


lemma askOpenAIAboutImage_ft_throws_Error:
  "outcome (askOpenAIAboutImage_ft image_url q create) = Inl e \<Longrightarrow> \<exists>msg. e = Error msg"
  by (auto simp: askOpenAIAboutImage_ft_def Let_def split: sum.splits option.splits list.splits)

lemma fetchTweetData_throws_Error:
  "outcome (fetchTweetData tweetId api) = Inl e \<Longrightarrow> \<exists>msg. e = Error msg"
  by (auto simp: fetchTweetData_outcome split: sum.splits)

lemma main_ft_exit_code: "exit_code (main_ft toLowerCase W) = 0"
  by (simp add: main_ft_def main_catch_ft_def Let_def split: sum.splits option.splits)

lemma program_ft_configured: "configured V \<Longrightarrow> program_ft toLowerCase V = main_ft toLowerCase V"
  by (simp add: program_ft_def configured_def)

lemma main_catch_ft_printed:
  \<open>printed (main_catch_ft ls rs out (Error msg)) =
     out @ [console_error [Str ''Error in main execution:'', Str msg, Thrown (Error msg)],
            console_log
              [Str (''Result for "Does the image contain a black baseball hat with white lettering?": false (due to error: ''
                    @ msg @ '')'')]]\<close>
  by (simp add: main_catch_ft_def)

lemma main_ft_resolver_throws:
  assumes "outcome (fetchTweetData TWEET_ID_ft (singleTweet W)) = Inl e"
  shows "main_ft toLowerCase W =
           main_catch_ft (sent (fetchTweetData TWEET_ID_ft (singleTweet W))) []
             ([console_log [Str (''Processing Tweet ID: '' @ TWEET_ID_ft)]]
                @ console (fetchTweetData TWEET_ID_ft (singleTweet W))) e"
  using assms by (simp add: main_ft_def Let_def)

lemma main_ft_no_image:
  assumes "outcome (fetchTweetData TWEET_ID_ft (singleTweet W)) = Inr td"
    and "\<not> truthy (imageUrl td)"
  shows "main_ft toLowerCase W =
           main_catch_ft (sent (fetchTweetData TWEET_ID_ft (singleTweet W))) []
             ([console_log [Str (''Processing Tweet ID: '' @ TWEET_ID_ft)]]
                @ console (fetchTweetData TWEET_ID_ft (singleTweet W)))
             (Error (''No image URL found for Tweet ID: '' @ TWEET_ID_ft @ ''.''))"
  using assms by (simp add: main_ft_def Let_def truthy_def split: option.splits)

lemma main_ft_verifier_throws:
  assumes "outcome (fetchTweetData TWEET_ID_ft (singleTweet W)) = Inr td"
    and "imageUrl td = Some u" and "u \<noteq> []"
    and "outcome (askOpenAIAboutImage_ft u question (inference W)) = Inl e"
  shows "main_ft toLowerCase W =
           main_catch_ft (sent (fetchTweetData TWEET_ID_ft (singleTweet W)))
             (sent (askOpenAIAboutImage_ft u question (inference W)))
             (([console_log [Str (''Processing Tweet ID: '' @ TWEET_ID_ft)]]
                @ console (fetchTweetData TWEET_ID_ft (singleTweet W)))
                @ console (askOpenAIAboutImage_ft u question (inference W))) e"
  using assms by (simp add: main_ft_def Let_def)





lemma sample_fetch_photo:
  "fetchTweetData t (lookup_returns (Inr (tweet_with [photo_with_both]))) =
     \<lparr>sent = [(t, tweet_lookup_options)],
      console = [console_log [Str (''Fetching tweet from Twitter API: '' @ t)]],
      outcome = Inr \<lparr>imageUrl = Some ''https://pbs.twimg.com/media/a.jpg'',
                     text' = Some ''my hat''\<rparr>\<rparr>"
  by (simp add: fetchTweetData_def fetchTweetData_try_def lookup_returns_def tweet_with_def
        select_imageUrl_def photo_with_both_def truthy_def Let_def)

lemma sample_world_simps:
  "singleTweet (sample_world key reply svc) = lookup_returns reply"
  "inference (sample_world key reply svc) = svc"
  by (simp_all add: sample_world_def)




text \<open>
  Two defects of the free-text variant, which the statement of the keyword checks
  above leaves aside. A reply without \<^verbatim>\<open>choices\<close> makes the verifier throw, so such a
  run never reaches the keyword checks. And the positive keyword \<^verbatim>\<open>it does\<close> is a
  part of the negative keyword \<^verbatim>\<open>it does not\<close>, so a response that contains the
  latter is given the verdict true.
\<close>

lemma reply_without_choices_throws:
  "outcome (askOpenAIAboutImage_ft image_url q (service_returns (Inr \<lparr>r_choices = None\<rparr>)))
     = Inl (Error ''Failed to get response from OpenAI about the image. Cannot read properties of undefined (reading '0')'')"
  by (simp add: askOpenAIAboutImage_ft_def service_returns_def choices_TypeError_def Let_def)

lemma it_does_not_is_shadowed:
  "sublist ''it does not'' s \<Longrightarrow> keyword_result s = Some True"
proof -
  assume "sublist ''it does not'' s"
  moreover have "sublist ''it does'' ''it does not''"
    unfolding str_includes_sublist [symmetric] by simp
  ultimately have "sublist ''it does'' s" by (rule sublist_order.order_trans [rotated])
  then show ?thesis by (simp add: keyword_result_def positive_iff)
qed

lemma question_has_no_slash: "CHR ''/'' \<notin> set question"
  by (simp add: question_def)

lemma question_names_no_reference_url:
  "\<not> list_ex (\<lambda>ref. sublist ref question) referenceImageUrls"
proof -
  have "\<not> sublist ref question" if "CHR ''/'' \<in> set ref" for ref
    using that question_has_no_slash set_mono_sublist [of ref question] by blast
  then show ?thesis by (simp add: referenceImageUrls_def)
qed

lemma slash_not_in_question:
  "CHR ''/'' \<in> set u \<Longrightarrow> \<not> sublist u question"
  using question_has_no_slash set_mono_sublist [of u question] by blast

text \<open>
  Claim C9. In the free-text variant the verifier ignores its \<^verbatim>\<open>imageUrl\<close> argument:
  any two image URLs give the same requests, console calls and outcome. The one request
  sent holds a single text part, the question; and the question the script asks
  contains none of the three reference image URLs, nor any candidate URL that has a
  slash in it.
\<close>

theorem request_ignores_image:
  "askOpenAIAboutImage_ft u1 q create = askOpenAIAboutImage_ft u2 q create
   \<and> sent (askOpenAIAboutImage_ft u1 q create) =
       [\<lparr>r_model = ''gpt-4o'', r_temperature = 0,
         r_input = [user_input [input_text q]],
         r_text_format =
           \<lparr>format_schema = verificationResponseSchema, format_name = ''response''\<rparr>\<rparr>]
   \<and> \<not> list_ex (\<lambda>ref. sublist ref question) referenceImageUrls
   \<and> (CHR ''/'' \<in> set u1 \<longrightarrow> \<not> sublist u1 question)"
proof (intro conjI impI)
  show "askOpenAIAboutImage_ft u1 q create = askOpenAIAboutImage_ft u2 q create"
    by (simp add: askOpenAIAboutImage_ft_def)
  show "\<not> sublist u1 question" if "CHR ''/'' \<in> set u1"
    using that by (rule slash_not_in_question)
qed (rule askOpenAIAboutImage_ft_sent, rule question_names_no_reference_url)

theorem request_ignores_image_witness:
  "sent (askOpenAIAboutImage_ft ''https://pbs.twimg.com/media/a.jpg'' question
           (service_returns (Inr \<lparr>r_choices = Some []\<rparr>)))
     = sent (askOpenAIAboutImage_ft ''https://pbs.twimg.com/media/b.jpg'' question
           (service_returns (Inr \<lparr>r_choices = Some []\<rparr>)))
   \<and> \<not> sublist ''https://pbs.twimg.com/media/a.jpg'' question"
proof -
  note r = request_ignores_image [of "''https://pbs.twimg.com/media/a.jpg''" question
      "service_returns (Inr \<lparr>r_choices = Some []\<rparr>)" "''https://pbs.twimg.com/media/b.jpg''"]
  have "CHR ''/'' \<in> set ''https://pbs.twimg.com/media/a.jpg''" by simp
  with r have "\<not> sublist ''https://pbs.twimg.com/media/a.jpg'' question" by blast
  moreover from r have "askOpenAIAboutImage_ft ''https://pbs.twimg.com/media/a.jpg'' question
           (service_returns (Inr \<lparr>r_choices = Some []\<rparr>))
     = askOpenAIAboutImage_ft ''https://pbs.twimg.com/media/b.jpg'' question
           (service_returns (Inr \<lparr>r_choices = Some []\<rparr>))"
    by (rule conjunct1)
  ultimately show ?thesis by simp
qed

section \<open>Exit codes\<close>

lemma program_ft_exit_code:
  "exit_code (program_ft toLowerCase V) = (if configured V then 0 else 1)"
  by (auto simp: program_ft_def configured_def exited_def main_ft_exit_code split: option.splits)

lemma main_exit_code:
  "exit_code (main W) =
     (case outcome (fetchTweetData TWEET_ID (singleTweet W)) of
        Inl e \<Rightarrow> 1
      | Inr td \<Rightarrow>
          (case imageUrl td of
             None \<Rightarrow> 1
           | Some u \<Rightarrow>
               if u = [] then 1
               else (case outcome (askOpenAIAboutImage u (inference W)) of
                       Inl e \<Rightarrow> 1
                     | Inr v \<Rightarrow> 0)))"
  by (simp add: main_def main_catch_def Let_def split: sum.splits option.splits)

lemma program_exit_code:
  "exit_code (program W) = (if configured W then exit_code (main W) else 1)"
  by (auto simp: program_def configured_def exited_def split: option.splits)

lemma fetch_tweet_not_found:
  "outcome (fetchTweetData tweetId (lookup_returns (Inr tweet_not_found)))
     = Inl (Error (''Failed to process tweet '' @ tweetId
          @ '': Failed to fetch tweet: Could not find tweet with id: [1921316529062265045].''))"
  by (simp add: tweet_not_found_def fetchTweetData_outcome fetchTweetData_try_def
        lookup_returns_def Let_def or_else_def truthy_def interp_def)

lemma program_ft_resolver_throws:
  assumes "configured V"
    and "outcome (fetchTweetData TWEET_ID_ft (singleTweet V)) = Inl (Error msg)"
  shows \<open>printed (program_ft toLowerCase V) =
           console_log [Str ''Processing Tweet ID: 1921316529062265045'']
             # console (fetchTweetData TWEET_ID_ft (singleTweet V))
             @ [console_error [Str ''Error in main execution:'', Str msg, Thrown (Error msg)],
                console_log
                  [Str (''Result for "Does the image contain a black baseball hat with white lettering?": false (due to error: ''
                        @ msg @ '')'')]]\<close>
  by (simp add: program_ft_configured [OF assms(1)] main_ft_resolver_throws [OF assms(2)]
        main_catch_ft_printed TWEET_ID_ft_def)

lemma program_ft_no_image:
  assumes "configured V"
    and "outcome (fetchTweetData TWEET_ID_ft (singleTweet V)) = Inr td"
    and "\<not> truthy (imageUrl td)"
  shows \<open>printed (program_ft toLowerCase V) =
           console_log [Str ''Processing Tweet ID: 1921316529062265045'']
             # console (fetchTweetData TWEET_ID_ft (singleTweet V))
             @ [console_error
                  [Str ''Error in main execution:'',
                   Str ''No image URL found for Tweet ID: 1921316529062265045.'',
                   Thrown (Error ''No image URL found for Tweet ID: 1921316529062265045.'')],
                console_log
                  [Str ''Result for "Does the image contain a black baseball hat with white lettering?": false (due to error: No image URL found for Tweet ID: 1921316529062265045.)'']]\<close>
  by (simp add: program_ft_configured [OF assms(1)] main_ft_no_image [OF assms(2,3)]
        main_catch_ft_printed TWEET_ID_ft_def)

lemma program_ft_verifier_throws:
  assumes "configured V"
    and "outcome (fetchTweetData TWEET_ID_ft (singleTweet V)) = Inr td"
    and "imageUrl td = Some u" and "u \<noteq> []"
    and "outcome (askOpenAIAboutImage_ft u question (inference V)) = Inl (Error msg)"
  shows \<open>printed (program_ft toLowerCase V) =
           console_log [Str ''Processing Tweet ID: 1921316529062265045'']
             # console (fetchTweetData TWEET_ID_ft (singleTweet V))
             @ console (askOpenAIAboutImage_ft u question (inference V))
             @ [console_error [Str ''Error in main execution:'', Str msg, Thrown (Error msg)],
                console_log
                  [Str (''Result for "Does the image contain a black baseball hat with white lettering?": false (due to error: ''
                        @ msg @ '')'')]]\<close>
  by (simp add: program_ft_configured [OF assms(1)] main_ft_verifier_throws [OF assms(2-5)]
        main_catch_ft_printed TWEET_ID_ft_def)

text \<open>
  Claim C2, amended. Both variants exit with code 1 when a secret is missing, or when
  a client's constructor throws. Past that point the schema-validated variant exits
  with code 1 when the resolver throws, when the resolver returns no image URL, and
  when the verifier throws, and with code 0 otherwise. The free-text variant always
  exits with code 0 past that point: when the resolver throws, when it returns no image
  URL, and when the verifier throws, the \<^verbatim>\<open>catch\<close> block of \<^verbatim>\<open>main\<close> logs the error and
  then the verdict false with the error's message, and the script ends normally.
\<close>

theorem exit_codes:
  fixes W :: "(chat_request \<Rightarrow> thrown + chat_completion) world"
    and V :: "(responses_request \<Rightarrow> thrown + text_response) world"
  shows
  \<open>(\<not> truthy (OPENAI_API_KEY W) \<or> \<not> truthy (TWITTER_BEARER_TOKEN W)
      \<longrightarrow> exit_code (program W) = 1)
   \<and> (\<not> truthy (OPENAI_API_KEY V) \<or> \<not> truthy (TWITTER_BEARER_TOKEN V)
      \<longrightarrow> exit_code (program_ft toLowerCase V) = 1)
   \<and> (\<not> configured W \<longrightarrow> exit_code (program W) = 1)
   \<and> (\<not> configured V \<longrightarrow> exit_code (program_ft toLowerCase V) = 1)
   \<and> (configured W \<longrightarrow>
        (isl (outcome (fetchTweetData TWEET_ID (singleTweet W))) \<longrightarrow> exit_code (program W) = 1)
      \<and> (\<forall>td. outcome (fetchTweetData TWEET_ID (singleTweet W)) = Inr td
               \<and> \<not> truthy (imageUrl td)
             \<longrightarrow> exit_code (program W) = 1)
      \<and> (\<forall>td u. outcome (fetchTweetData TWEET_ID (singleTweet W)) = Inr td
               \<and> imageUrl td = Some u \<and> u \<noteq> []
               \<and> isl (outcome (askOpenAIAboutImage u (inference W)))
             \<longrightarrow> exit_code (program W) = 1)
      \<and> (\<forall>td u. outcome (fetchTweetData TWEET_ID (singleTweet W)) = Inr td
               \<and> imageUrl td = Some u \<and> u \<noteq> []
               \<and> \<not> isl (outcome (askOpenAIAboutImage u (inference W)))
             \<longrightarrow> exit_code (program W) = 0))
   \<and> (configured V \<longrightarrow>
        exit_code (program_ft toLowerCase V) = 0
      \<and> (\<forall>e. outcome (fetchTweetData TWEET_ID_ft (singleTweet V)) = Inl e
             \<longrightarrow> (\<exists>msg. e = Error msg
                  \<and> printed (program_ft toLowerCase V) =
                      console_log [Str ''Processing Tweet ID: 1921316529062265045'']
                        # console (fetchTweetData TWEET_ID_ft (singleTweet V))
                        @ [console_error [Str ''Error in main execution:'', Str msg, Thrown e],
                           console_log
                             [Str (''Result for "Does the image contain a black baseball hat with white lettering?": false (due to error: ''
                                   @ msg @ '')'')]]))
      \<and> (\<forall>td. outcome (fetchTweetData TWEET_ID_ft (singleTweet V)) = Inr td
               \<and> \<not> truthy (imageUrl td)
             \<longrightarrow> printed (program_ft toLowerCase V) =
                   console_log [Str ''Processing Tweet ID: 1921316529062265045'']
                     # console (fetchTweetData TWEET_ID_ft (singleTweet V))
                     @ [console_error
                          [Str ''Error in main execution:'',
                           Str ''No image URL found for Tweet ID: 1921316529062265045.'',
                           Thrown (Error ''No image URL found for Tweet ID: 1921316529062265045.'')],
                        console_log
                          [Str ''Result for "Does the image contain a black baseball hat with white lettering?": false (due to error: No image URL found for Tweet ID: 1921316529062265045.)'']])
      \<and> (\<forall>td u e. outcome (fetchTweetData TWEET_ID_ft (singleTweet V)) = Inr td
               \<and> imageUrl td = Some u \<and> u \<noteq> []
               \<and> outcome (askOpenAIAboutImage_ft u question (inference V)) = Inl e
             \<longrightarrow> (\<exists>msg. e = Error msg
                  \<and> printed (program_ft toLowerCase V) =
                      console_log [Str ''Processing Tweet ID: 1921316529062265045'']
                        # console (fetchTweetData TWEET_ID_ft (singleTweet V))
                        @ console (askOpenAIAboutImage_ft u question (inference V))
                        @ [console_error [Str ''Error in main execution:'', Str msg, Thrown e],
                           console_log
                             [Str (''Result for "Does the image contain a black baseball hat with white lettering?": false (due to error: ''
                                   @ msg @ '')'')]])))\<close>
proof (intro conjI impI allI)
  assume "\<not> truthy (OPENAI_API_KEY W) \<or> \<not> truthy (TWITTER_BEARER_TOKEN W)"
  then show "exit_code (program W) = 1"
    by (auto simp: program_exit_code configured_def)
next
  assume "\<not> truthy (OPENAI_API_KEY V) \<or> \<not> truthy (TWITTER_BEARER_TOKEN V)"
  then show "exit_code (program_ft toLowerCase V) = 1"
    by (auto simp: program_ft_exit_code configured_def)
next
  assume "\<not> configured W"
  then show "exit_code (program W) = 1" by (simp add: program_exit_code)
next
  assume "\<not> configured V"
  then show "exit_code (program_ft toLowerCase V) = 1" by (simp add: program_ft_exit_code)
next
  assume "configured W" "isl (outcome (fetchTweetData TWEET_ID (singleTweet W)))"
  then show "exit_code (program W) = 1"
    by (cases "outcome (fetchTweetData TWEET_ID (singleTweet W))")
       (simp_all add: program_exit_code main_exit_code)
next
  fix td
  assume "configured W"
    "outcome (fetchTweetData TWEET_ID (singleTweet W)) = Inr td \<and> \<not> truthy (imageUrl td)"
  then show "exit_code (program W) = 1"
    by (simp add: program_exit_code main_exit_code truthy_def split: option.splits)
next
  fix td u
  assume "configured W"
    "outcome (fetchTweetData TWEET_ID (singleTweet W)) = Inr td
       \<and> imageUrl td = Some u \<and> u \<noteq> []
       \<and> isl (outcome (askOpenAIAboutImage u (inference W)))"
  then show "exit_code (program W) = 1"
    by (cases "outcome (askOpenAIAboutImage u (inference W))")
       (simp_all add: program_exit_code main_exit_code)
next
  fix td u
  assume "configured W"
    "outcome (fetchTweetData TWEET_ID (singleTweet W)) = Inr td
       \<and> imageUrl td = Some u \<and> u \<noteq> []
       \<and> \<not> isl (outcome (askOpenAIAboutImage u (inference W)))"
  then show "exit_code (program W) = 0"
    by (cases "outcome (askOpenAIAboutImage u (inference W))")
       (simp_all add: program_exit_code main_exit_code)
next
  assume "configured V"
  then show "exit_code (program_ft toLowerCase V) = 0" by (simp add: program_ft_exit_code)
next
  fix e
  assume c: "configured V"
    and f: "outcome (fetchTweetData TWEET_ID_ft (singleTweet V)) = Inl e"
  from f obtain msg where e: "e = Error msg"
    using fetchTweetData_throws_Error by blast
  from program_ft_resolver_throws [OF c f [unfolded e], of toLowerCase] e
  show \<open>\<exists>msg. e = Error msg
          \<and> printed (program_ft toLowerCase V) =
              console_log [Str ''Processing Tweet ID: 1921316529062265045'']
                # console (fetchTweetData TWEET_ID_ft (singleTweet V))
                @ [console_error [Str ''Error in main execution:'', Str msg, Thrown e],
                   console_log
                     [Str (''Result for "Does the image contain a black baseball hat with white lettering?": false (due to error: ''
                           @ msg @ '')'')]]\<close>
    by (intro exI [of _ msg]) simp
next
  fix td
  assume c: "configured V"
    and f: "outcome (fetchTweetData TWEET_ID_ft (singleTweet V)) = Inr td
              \<and> \<not> truthy (imageUrl td)"
  show \<open>printed (program_ft toLowerCase V) =
           console_log [Str ''Processing Tweet ID: 1921316529062265045'']
             # console (fetchTweetData TWEET_ID_ft (singleTweet V))
             @ [console_error
                  [Str ''Error in main execution:'',
                   Str ''No image URL found for Tweet ID: 1921316529062265045.'',
                   Thrown (Error ''No image URL found for Tweet ID: 1921316529062265045.'')],
                console_log
                  [Str ''Result for "Does the image contain a black baseball hat with white lettering?": false (due to error: No image URL found for Tweet ID: 1921316529062265045.)'']]\<close>
    by (rule program_ft_no_image [OF c f [THEN conjunct1] f [THEN conjunct2]])
next
  fix td u e
  assume c: "configured V"
    and f: "outcome (fetchTweetData TWEET_ID_ft (singleTweet V)) = Inr td
              \<and> imageUrl td = Some u \<and> u \<noteq> []
              \<and> outcome (askOpenAIAboutImage_ft u question (inference V)) = Inl e"
  from f have f1: "outcome (fetchTweetData TWEET_ID_ft (singleTweet V)) = Inr td"
    and f2: "imageUrl td = Some u" and f3: "u \<noteq> []"
    and f4: "outcome (askOpenAIAboutImage_ft u question (inference V)) = Inl e"
    by simp_all
  from f4 obtain msg where e: "e = Error msg"
    using askOpenAIAboutImage_ft_throws_Error by blast
  from program_ft_verifier_throws [OF c f1 f2 f3 f4 [unfolded e], of toLowerCase] e
  show \<open>\<exists>msg. e = Error msg
          \<and> printed (program_ft toLowerCase V) =
              console_log [Str ''Processing Tweet ID: 1921316529062265045'']
                # console (fetchTweetData TWEET_ID_ft (singleTweet V))
                @ console (askOpenAIAboutImage_ft u question (inference V))
                @ [console_error [Str ''Error in main execution:'', Str msg, Thrown e],
                   console_log
                     [Str (''Result for "Does the image contain a black baseball hat with white lettering?": false (due to error: ''
                           @ msg @ '')'')]]\<close>
    by (intro exI [of _ msg]) simp
qed

theorem exit_codes_witness:
  \<open>exit_code (program (sample_world None (Inr (tweet_with [photo_with_both]))
                (service_returns (Inr \<lparr>choices = []\<rparr>)))) = 1
   \<and> exit_code (program (sample_world (Some ''sk-test'') (Inr tweet_not_found)
                (service_returns (Inr \<lparr>choices = []\<rparr>)))) = 1
   \<and> exit_code (program (sample_world (Some ''sk-test'') (Inr (tweet_with [photo_with_both]))
                (service_returns (Inr \<lparr>choices = []\<rparr>)))) = 0
   \<and> exit_code (program_ft ascii_toLowerCase
                (sample_world (Some ''sk-test'') (Inr tweet_not_found)
                   (service_returns (Inr \<lparr>r_choices = None\<rparr>)))) = 0
   \<and> printed (program_ft ascii_toLowerCase
                (sample_world (Some ''sk-test'') (Inr tweet_not_found)
                   (service_returns (Inr \<lparr>r_choices = None\<rparr>))))
       = console_log [Str ''Processing Tweet ID: 1921316529062265045'']
           # console (fetchTweetData TWEET_ID_ft (lookup_returns (Inr tweet_not_found)))
           @ [console_error
                [Str ''Error in main execution:'',
                 Str ''Failed to process tweet 1921316529062265045: Failed to fetch tweet: Could not find tweet with id: [1921316529062265045].'',
                 Thrown (Error ''Failed to process tweet 1921316529062265045: Failed to fetch tweet: Could not find tweet with id: [1921316529062265045].'')],
              console_log
                [Str ''Result for "Does the image contain a black baseball hat with white lettering?": false (due to error: Failed to process tweet 1921316529062265045: Failed to fetch tweet: Could not find tweet with id: [1921316529062265045].)'']]\<close>
proof -
  let ?V = "sample_world (Some ''sk-test'') (Inr tweet_not_found)
              (service_returns (Inr \<lparr>r_choices = None\<rparr>))
            :: (responses_request \<Rightarrow> thrown + text_response) world"
  let ?W0 = "sample_world None (Inr (tweet_with [photo_with_both]))
              (service_returns (Inr \<lparr>choices = []\<rparr>))
            :: (chat_request \<Rightarrow> thrown + chat_completion) world"
  let ?W1 = "sample_world (Some ''sk-test'') (Inr tweet_not_found)
              (service_returns (Inr \<lparr>choices = []\<rparr>))
            :: (chat_request \<Rightarrow> thrown + chat_completion) world"
  let ?W2 = "sample_world (Some ''sk-test'') (Inr (tweet_with [photo_with_both]))
              (service_returns (Inr \<lparr>choices = []\<rparr>))
            :: (chat_request \<Rightarrow> thrown + chat_completion) world"
  let ?m = "''Failed to process tweet 1921316529062265045: Failed to fetch tweet: Could not find tweet with id: [1921316529062265045].''"
  have k: "\<not> truthy (OPENAI_API_KEY ?W0)" by (simp add: sample_world_def truthy_def)
  have a: "exit_code (program ?W0) = 1"
    by (rule exit_codes [of ?W0 ?V, THEN conjunct1, THEN mp, OF disjI1, OF k])
  have c1: "configured ?W1" by (rule configured_sample_world)
  have c2: "configured ?W2" by (rule configured_sample_world)
  have cv: "configured ?V" by (rule configured_sample_world)
  note w1 = exit_codes [of ?W1 ?V, THEN conjunct2, THEN conjunct2, THEN conjunct2,
      THEN conjunct2, THEN conjunct1, THEN mp, OF c1]
  note w2 = exit_codes [of ?W2 ?V, THEN conjunct2, THEN conjunct2, THEN conjunct2,
      THEN conjunct2, THEN conjunct1, THEN mp, OF c2]
  note v = exit_codes [of ?W2 ?V ascii_toLowerCase, THEN conjunct2, THEN conjunct2,
      THEN conjunct2, THEN conjunct2, THEN conjunct2, THEN mp, OF cv]
  have "isl (outcome (fetchTweetData TWEET_ID (singleTweet ?W1)))"
    by (simp add: sample_world_def fetch_tweet_not_found)
  then have b: "exit_code (program ?W1) = 1"
    by (rule w1 [THEN conjunct1, THEN mp])
  have f: "outcome (fetchTweetData TWEET_ID (singleTweet ?W2))
             = Inr \<lparr>imageUrl = Some ''https://pbs.twimg.com/media/a.jpg'', text' = Some ''my hat''\<rparr>"
    by (simp add: sample_world_simps sample_fetch_photo)
  have g: "\<not> isl (outcome (askOpenAIAboutImage ''https://pbs.twimg.com/media/a.jpg'' (inference ?W2)))"
    by (simp add: sample_world_def askOpenAIAboutImage_def service_returns_def Let_def)
  from f g have c: "exit_code (program ?W2) = 0"
    by (intro w2 [THEN conjunct2, THEN conjunct2, THEN conjunct2, rule_format, of
          "\<lparr>imageUrl = Some ''https://pbs.twimg.com/media/a.jpg'', text' = Some ''my hat''\<rparr>"
          "''https://pbs.twimg.com/media/a.jpg''"]) simp
  have d: "exit_code (program_ft ascii_toLowerCase ?V) = 0"
    by (rule v [THEN conjunct1])
  have t: "outcome (fetchTweetData TWEET_ID_ft (singleTweet ?V)) = Inl (Error ?m)"
    by (simp add: sample_world_simps fetch_tweet_not_found TWEET_ID_ft_def)
  from v [THEN conjunct2, THEN conjunct1, rule_format, OF t]
  obtain msg where "Error ?m = Error msg"
    and p: \<open>printed (program_ft ascii_toLowerCase ?V) =
              console_log [Str ''Processing Tweet ID: 1921316529062265045'']
                # console (fetchTweetData TWEET_ID_ft (singleTweet ?V))
                @ [console_error [Str ''Error in main execution:'', Str msg, Thrown (Error ?m)],
                   console_log
                     [Str (''Result for "Does the image contain a black baseball hat with white lettering?": false (due to error: ''
                           @ msg @ '')'')]]\<close>
    by blast
  then have "msg = ?m" by simp
  with p have e: \<open>printed (program_ft ascii_toLowerCase ?V)
       = console_log [Str ''Processing Tweet ID: 1921316529062265045'']
           # console (fetchTweetData TWEET_ID_ft (lookup_returns (Inr tweet_not_found)))
           @ [console_error [Str ''Error in main execution:'', Str ?m, Thrown (Error ?m)],
              console_log
                [Str ''Result for "Does the image contain a black baseball hat with white lettering?": false (due to error: Failed to process tweet 1921316529062265045: Failed to fetch tweet: Could not find tweet with id: [1921316529062265045].)'']]\<close>
    by (simp add: sample_world_simps)
  from a b c d e show ?thesis by (intro conjI)
qed

text \<open>
  Claim C2 as stated has the free-text variant exit with code 1 on an unresolved
  tweet. With both secrets set and a lookup that reports the tweet as not found, the
  resolver throws and the free-text variant still exits with code 0.
\<close>

theorem exit_codes_counterexample:
  "outcome (fetchTweetData TWEET_ID_ft
      (singleTweet (sample_world (Some ''sk-test'') (Inr tweet_not_found)
                      (service_returns (Inr \<lparr>r_choices = None\<rparr>)))))
     = Inl (Error ''Failed to process tweet 1921316529062265045: Failed to fetch tweet: Could not find tweet with id: [1921316529062265045].'')
   \<and> exit_code (program_ft ascii_toLowerCase
        (sample_world (Some ''sk-test'') (Inr tweet_not_found)
           (service_returns (Inr \<lparr>r_choices = None\<rparr>)))) = 0"
proof
  show "outcome (fetchTweetData TWEET_ID_ft
      (singleTweet (sample_world (Some ''sk-test'') (Inr tweet_not_found)
                      (service_returns (Inr \<lparr>r_choices = None\<rparr>)))))
     = Inl (Error ''Failed to process tweet 1921316529062265045: Failed to fetch tweet: Could not find tweet with id: [1921316529062265045].'')"
    by (simp add: sample_world_def fetch_tweet_not_found TWEET_ID_ft_def)
  show "exit_code (program_ft ascii_toLowerCase
        (sample_world (Some ''sk-test'') (Inr tweet_not_found)
           (service_returns (Inr \<lparr>r_choices = None\<rparr>)))) = 0"
    by (simp add: program_ft_exit_code configured_sample_world)
qed

end
